theory Spec2Isabelle
  imports
    Main
    "HOL-Library.Char_ord"
    "HOL-Library.List_Lexorder"
    "HOL-Library.Sublist"
    "HOL-Library.Multiset"
begin

section \<open>Python built-ins used by the content generator\<close>

text \<open>
  Python strings are sequences of code points. They are modelled as \<open>string\<close>, a
  list of 8-bit characters read as the code points 0 to 255 (Latin-1); the character
  classes below are those of CPython on that range. Strings are ordered
  lexicographically by code point, as \<open>str\<close> comparison does.
\<close>

definition py_isspace :: "char \<Rightarrow> bool" where
  \<comment> \<open>\<open>str.isspace\<close>, also the class \<open>\s\<close> of \<open>re\<close> and the set that \<open>strip()\<close> and \<open>split()\<close> use\<close>
  "py_isspace c =
     (let n = (of_char c :: nat)
      in (9 \<le> n \<and> n \<le> 13) \<or> (28 \<le> n \<and> n \<le> 32) \<or> n = 133 \<or> n = 160)"

definition py_strip :: "string \<Rightarrow> string" where
  \<comment> \<open>\<open>s.strip()\<close>\<close>
  "py_strip s = rev (dropWhile py_isspace (rev (dropWhile py_isspace s)))"

fun split_words :: "string \<Rightarrow> string \<Rightarrow> string list" where
  "split_words cur [] = (if cur = [] then [] else [cur])"
| "split_words cur (c # cs) =
     (if py_isspace c
      then (if cur = [] then split_words [] cs else cur # split_words [] cs)
      else split_words (cur @ [c]) cs)"

definition py_split :: "string \<Rightarrow> string list" where
  \<comment> \<open>\<open>s.split()\<close>: the maximal runs of non-whitespace characters\<close>
  "py_split s = split_words [] s"

fun py_in :: "string \<Rightarrow> string \<Rightarrow> bool" where
  \<comment> \<open>\<open>sub in s\<close> for strings\<close>
  "py_in sub [] = (sub = [])"
| "py_in sub (c # cs) = (prefix sub (c # cs) \<or> py_in sub cs)"

fun str_split_from :: "string \<Rightarrow> string \<Rightarrow> string \<Rightarrow> string list" where
  "str_split_from sep cur [] = [cur]"
| "str_split_from sep cur (c # cs) =
     (if sep \<noteq> [] \<and> prefix sep (c # cs)
      then cur # str_split_from sep [] (drop (length sep) (c # cs))
      else str_split_from sep (cur @ [c]) cs)"

definition str_split :: "string \<Rightarrow> string \<Rightarrow> string list" where
  \<comment> \<open>\<open>s.split(sep)\<close>, left to right without overlaps. Python raises ValueError for
      an empty separator; every call site passes a non-empty literal.\<close>
  "str_split sep s = str_split_from sep [] s"

definition py_isword :: "char \<Rightarrow> bool" where
  \<comment> \<open>the class \<open>\w\<close> of \<open>re\<close> on \<open>str\<close> patterns: alphanumeric characters and the underscore\<close>
  "py_isword c =
     (let n = (of_char c :: nat)
      in (48 \<le> n \<and> n \<le> 57) \<or> (65 \<le> n \<and> n \<le> 90) \<or> n = 95 \<or> (97 \<le> n \<and> n \<le> 122)
         \<or> n = 170 \<or> n = 178 \<or> n = 179 \<or> n = 181 \<or> n = 185 \<or> n = 186
         \<or> (188 \<le> n \<and> n \<le> 190) \<or> (192 \<le> n \<and> n \<le> 214)
         \<or> (216 \<le> n \<and> n \<le> 246) \<or> (248 \<le> n \<and> n \<le> 255))"

definition py_lower_char :: "char \<Rightarrow> char" where
  "py_lower_char c =
     (let n = (of_char c :: nat)
      in if (65 \<le> n \<and> n \<le> 90) \<or> (192 \<le> n \<and> n \<le> 214) \<or> (216 \<le> n \<and> n \<le> 222)
         then char_of (n + 32) else c)"

definition py_lower :: "string \<Rightarrow> string" where
  \<comment> \<open>\<open>s.lower()\<close>\<close>
  "py_lower s = map py_lower_char s"

fun py_join :: "string \<Rightarrow> string list \<Rightarrow> string" where
  \<comment> \<open>\<open>sep.join(xs)\<close>\<close>
  "py_join sep [] = []"
| "py_join sep [x] = x"
| "py_join sep (x # y # ys) = x @ sep @ py_join sep (y # ys)"

definition py_endswith :: "string \<Rightarrow> string \<Rightarrow> bool" where
  \<comment> \<open>\<open>s.endswith(suf)\<close>\<close>
  "py_endswith s suf = prefix (rev suf) (rev s)"

fun str_of_nat :: "nat \<Rightarrow> string" where
  \<comment> \<open>the decimal digits an f-string writes for a non-negative integer\<close>
  "str_of_nat n =
     (if n < 10 then [''0123456789'' ! n]
      else str_of_nat (n div 10) @ [''0123456789'' ! (n mod 10)])"

declare str_of_nat.simps [simp del]

definition py_round_div :: "nat \<Rightarrow> nat \<Rightarrow> nat" where
  \<comment> \<open>\<open>round(a / b)\<close> for non-negative integers and \<open>b > 0\<close>: the nearest integer to the
      quotient, a tie going to the even neighbour. The float quotient is read as the
      exact rational; for the word counts of a text (far below \<open>2 ^ 50\<close>) rounding the
      float gives the same integer.\<close>
  "py_round_div a b =
     (let q = a div b; r = a mod b
      in if 2 * r < b then q
         else if b < 2 * r then q + 1
         else if even q then q else q + 1)"

fun path_join2 :: "string \<Rightarrow> string \<Rightarrow> string" where
  "path_join2 a b =
     (if b \<noteq> [] \<and> hd b = CHR ''/'' then b
      else if a = [] \<or> last a = CHR ''/'' then a @ b
      else a @ ''/'' @ b)"

definition os_path_join :: "string \<Rightarrow> string list \<Rightarrow> string" where
  \<comment> \<open>\<open>os.path.join(a, *parts)\<close> on POSIX\<close>
  "os_path_join a parts = foldl path_join2 a parts"

datatype py_error = KeyError string | AttributeError string | TypeError string

definition py_sort_reverse :: "('a \<Rightarrow> 'k::linorder) \<Rightarrow> 'a list \<Rightarrow> 'a list" where
  \<comment> \<open>\<open>xs.sort(key=key, reverse=True)\<close> and \<open>sorted(xs, key=key, reverse=True)\<close>:
      CPython reverses the list, sorts it stably in ascending order and reverses the
      result, so that equal keys keep their original order.\<close>
  "py_sort_reverse key xs = rev (sort_key key (rev xs))"

section \<open>Data model\<close>

text \<open>
  A paper is a Python dict. Every place of the repository that builds one sets the keys
  \<open>id\<close>, \<open>title\<close>, \<open>authors\<close>, \<open>published\<close> and \<open>category\<close>. The abstract is stored
  under \<open>summary\<close> by \<open>EnhancedArxivFetcher\<close>'s searches and under \<open>abstract\<close> by
  \<open>ArxivFetcher\<close> and by both lists of classic papers; only live search results carry a
  \<open>relevance_score\<close>. A key that may be absent is an \<open>option\<close>.
\<close>

record paper =
  p_id :: string
  p_title :: string
  p_authors :: "string list"
  p_published :: string
  p_category :: string
  p_summary :: "string option"
  p_abstract :: "string option"
  p_relevance_score :: "int option"

text \<open>
  An entry of the existing \<open>articles.json\<close>, as far as \<open>get_existing_paper_ids\<close> reads
  it: the keys \<open>paper_id\<close> and \<open>url\<close>, each possibly absent.
\<close>

record stored_article =
  sa_paper_id :: "string option"
  sa_url :: "string option"

section \<open>daily\_automation.py: selection of new papers\<close>

definition add_existing_id :: "stored_article \<Rightarrow> string set \<Rightarrow> string set" where
  \<comment> \<open>the body of the loop of \<open>get_existing_paper_ids\<close>\<close>
  "add_existing_id article existing_ids =
     (case sa_paper_id article of
        Some i \<Rightarrow> insert i existing_ids
      | None \<Rightarrow>
          (case sa_url article of
             Some u \<Rightarrow>
               (if py_in ''arxiv.org/abs/'' u
                then insert (last (str_split ''/'' u)) existing_ids
                else existing_ids)
           | None \<Rightarrow> existing_ids))"

definition get_existing_paper_ids :: "stored_article list \<Rightarrow> string set" where
  "get_existing_paper_ids articles = fold add_existing_id articles {}"

definition relevance :: "paper \<Rightarrow> int" where
  \<comment> \<open>the sort key \<open>lambda x: x.get('relevance_score', 0)\<close>\<close>
  "relevance x = (case p_relevance_score x of Some v \<Rightarrow> v | None \<Rightarrow> 0)"

definition find_new_papers :: "nat \<Rightarrow> stored_article list \<Rightarrow> paper list \<Rightarrow> paper list" where
  \<comment> \<open>\<open>max_daily_articles\<close> is the attribute set to 2 in \<open>__init__\<close>; \<open>existing_articles\<close> is
      what \<open>load_existing_articles\<close> returned and \<open>recent_papers\<close> what the fetcher returned.\<close>
  "find_new_papers max_daily_articles existing_articles recent_papers =
     (let existing_ids = get_existing_paper_ids existing_articles;
          new_papers = filter (\<lambda>paper. p_id paper \<notin> existing_ids) recent_papers
      in take max_daily_articles (py_sort_reverse relevance new_papers))"

section \<open>article\_generator.py\<close>

text \<open>
  The generated article, with the keys of \<open>ArticleGenerator.template\<close>; the nested dicts
  \<open>content\<close> and \<open>concept_explanation\<close> are records of their own.
\<close>

record content_sections =
  background :: string
  methodology :: string
  results :: string
  significance :: string

record concept_section =
  ce_title :: string
  ce_content :: string

record article =
  title :: string
  subtitle :: string
  category :: string
  authors :: "string list"
  paper_url :: string
  read_time :: string
  publish_date :: string
  concept_explained :: string
  content :: content_sections
  concept_explanation :: concept_section
  summary :: string

text \<open>
  A prompt is an f-string: a fixed template with values interpolated. It is recorded as
  the template (one constructor for each of the eight templates of the file) and the
  interpolated values, in the order they occur in the template; the fixed text is left
  out. \<open>ExplanationPrompt\<close> carries the concept name first, then the paper's title and
  abstract.
\<close>

datatype prompt =
    BackgroundPrompt string string
  | MethodologyPrompt string string
  | ResultsPrompt string string
  | SignificancePrompt string string string
  | ConceptPrompt string string
  | ExplanationPrompt string string string
  | SummaryPrompt string string
  | SubtitlePrompt string string

text \<open>
  The text-generation service, \<open>self.client.chat.completions.create\<close> followed by
  \<open>response.choices[0].message.content\<close>: for a prompt it gives the content (\<open>Inr\<close>) or
  raises an exception, \<open>Inl\<close> of its message. The eight prompts of one article are
  pairwise different, so a function of the prompt covers every sequence of outcomes the
  service can show during one call of \<open>generate_article\<close>.
\<close>

type_synonym completion_service = "prompt \<Rightarrow> string + string"

definition call_openai :: "completion_service \<Rightarrow> prompt \<Rightarrow> string" where
  "call_openai client prompt =
     (case client prompt of
        Inr message_content \<Rightarrow> py_strip message_content
      | Inl e \<Rightarrow> ''Error generating content: '' @ e)"

definition paper_summary :: "paper \<Rightarrow> py_error + string" where
  \<comment> \<open>\<open>paper['summary']\<close>\<close>
  "paper_summary paper =
     (case p_summary paper of None \<Rightarrow> Inl (KeyError ''summary'') | Some s \<Rightarrow> Inr s)"

definition bind_result :: "'e + 'a \<Rightarrow> ('a \<Rightarrow> 'e + 'b) \<Rightarrow> 'e + 'b" where
  \<comment> \<open>sequencing: an exception of the first step ends the computation\<close>
  "bind_result r f = (case r of Inl e \<Rightarrow> Inl e | Inr v \<Rightarrow> f v)"

definition generate_background :: "completion_service \<Rightarrow> paper \<Rightarrow> py_error + string" where
  "generate_background client paper =
     bind_result (paper_summary paper)
       (\<lambda>s. Inr (call_openai client (BackgroundPrompt (p_title paper) s)))"

definition generate_methodology :: "completion_service \<Rightarrow> paper \<Rightarrow> py_error + string" where
  "generate_methodology client paper =
     bind_result (paper_summary paper)
       (\<lambda>s. Inr (call_openai client (MethodologyPrompt (p_title paper) s)))"

definition generate_results :: "completion_service \<Rightarrow> paper \<Rightarrow> py_error + string" where
  "generate_results client paper =
     bind_result (paper_summary paper)
       (\<lambda>s. Inr (call_openai client (ResultsPrompt (p_title paper) s)))"

definition generate_significance :: "completion_service \<Rightarrow> paper \<Rightarrow> py_error + string" where
  "generate_significance client paper =
     bind_result (paper_summary paper)
       (\<lambda>s. Inr (call_openai client (SignificancePrompt (p_title paper) s (p_published paper))))"

definition generate_concept_explanation ::
    "completion_service \<Rightarrow> paper \<Rightarrow> py_error + string \<times> string" where
  "generate_concept_explanation client paper =
     bind_result (paper_summary paper) (\<lambda>s.
       let concept_title = py_strip (call_openai client (ConceptPrompt (p_title paper) s));
           concept_content = call_openai client (ExplanationPrompt concept_title (p_title paper) s)
       in Inr (concept_title, concept_content))"

definition generate_summary :: "completion_service \<Rightarrow> paper \<Rightarrow> py_error + string" where
  "generate_summary client paper =
     bind_result (paper_summary paper)
       (\<lambda>s. Inr (py_strip (call_openai client (SummaryPrompt (p_title paper) s))))"

definition generate_subtitle :: "completion_service \<Rightarrow> paper \<Rightarrow> py_error + string" where
  "generate_subtitle client paper =
     bind_result (paper_summary paper)
       (\<lambda>s. Inr (py_strip (call_openai client (SubtitlePrompt (p_title paper) s))))"

definition category_display_map :: "(string \<times> string) list" where
  "category_display_map =
     [(''foundation-models'', ''Foundation Models''),
      (''generative-models'', ''Generative Models''),
      (''optimization'', ''Optimization''),
      (''applications'', ''Applications''),
      (''basic-concepts'', ''Basic Concepts'')]"

definition format_category :: "string \<Rightarrow> string" where
  "format_category category_slug =
     (case map_of category_display_map category_slug of
        Some name \<Rightarrow> name
      | None \<Rightarrow> ''Basic Concepts'')"

definition generate_article :: "completion_service \<Rightarrow> string \<Rightarrow> paper \<Rightarrow> py_error + article" where
  \<comment> \<open>\<open>today\<close> is \<open>datetime.now().strftime("%Y-%m-%d")\<close>. The subtitle is generated last,
      while the dict of the article is built.\<close>
  "generate_article client today paper =
     bind_result (generate_background client paper) (\<lambda>background_text.
     bind_result (generate_methodology client paper) (\<lambda>methodology_text.
     bind_result (generate_results client paper) (\<lambda>results_text.
     bind_result (generate_significance client paper) (\<lambda>significance_text.
     bind_result (generate_concept_explanation client paper) (\<lambda>(concept_title, concept_content).
     bind_result (generate_summary client paper) (\<lambda>summary_text.
       let total_words = length (py_split (background_text @ methodology_text @ results_text
                                           @ significance_text @ concept_content));
           read_minutes = max 1 (py_round_div total_words 200)
       in
     bind_result (generate_subtitle client paper) (\<lambda>subtitle_text.
       Inr \<lparr> title = ''Paper Explained: '' @ p_title paper @ '' - A Beginner's Guide'',
             subtitle = subtitle_text,
             category = format_category (p_category paper),
             authors = p_authors paper,
             paper_url = ''https://arxiv.org/abs/'' @ p_id paper,
             read_time = str_of_nat read_minutes @ '' min read'',
             publish_date = today,
             concept_explained = concept_title,
             content = \<lparr> background = background_text, methodology = methodology_text,
                         results = results_text, significance = significance_text \<rparr>,
             concept_explanation =
               \<lparr> ce_title = ''Understanding '' @ concept_title @ '': The Heart of ''
                     @ (if py_in '':'' (p_title paper)
                        then str_split '':'' (p_title paper) ! 0 else p_title paper),
                 ce_content = concept_content \<rparr>,
             summary = summary_text \<rparr>)))))))"

section \<open>content\_manager.py\<close>

text \<open>
  An entry of \<open>articles.json\<close> as \<open>ContentManager.integrate_articles\<close> writes it.
  The article dicts handed to the manager are those \<open>generate_article\<close> returns
  (possibly reloaded from their JSON files), so they carry every key the manager reads.
\<close>

record corpus_entry =
  e_id :: string
  e_title :: string
  e_subtitle :: string
  e_category :: string
  e_categorySlug :: string
  e_authors :: "string list"
  e_paperUrl :: string
  e_readTime :: string
  e_publishDate :: string
  e_conceptExplained :: string
  e_content :: content_sections
  e_conceptExplanation :: concept_section
  e_summary :: string
  e_excerpt :: string

text \<open>
  The files the manager writes: the corpus, and four files of fixed text (the data
  loader and three React components), each recorded by its name only. A file system
  maps a path to the content of the file there.
\<close>

datatype file_content =
    CorpusFile "corpus_entry list"
  | DataLoaderJs
  | HomePageJsx
  | ArticlePageJsx
  | CategoryPageJsx

type_synonym filesystem = "string \<Rightarrow> file_content option"

record content_manager =
  blog_path :: string
  articles_dir :: string

definition new_content_manager :: "string \<Rightarrow> content_manager" where
  \<comment> \<open>\<open>ContentManager.__init__\<close>; the directories it creates are not part of the model\<close>
  "new_content_manager path =
     \<lparr> blog_path = path, articles_dir = os_path_join path [''src'', ''data''] \<rparr>"

definition re_sub_other :: "string \<Rightarrow> string" where
  \<comment> \<open>\<open>re.sub(r'[^\w\s-]', '', s)\<close>\<close>
  "re_sub_other s = filter (\<lambda>c. py_isword c \<or> py_isspace c \<or> c = CHR ''-'') s"

fun re_sub_runs :: "bool \<Rightarrow> string \<Rightarrow> string" where
  \<comment> \<open>\<open>re.sub(r'[-\s]+', '-', s)\<close>: every maximal run of hyphens and whitespace becomes
      one hyphen. The flag says that the character before belongs to such a run.\<close>
  "re_sub_runs in_run [] = []"
| "re_sub_runs in_run (c # cs) =
     (if c = CHR ''-'' \<or> py_isspace c
      then (if in_run then re_sub_runs True cs else CHR ''-'' # re_sub_runs True cs)
      else c # re_sub_runs False cs)"

definition strip_hyphens :: "string \<Rightarrow> string" where
  \<comment> \<open>\<open>s.strip('-')\<close>\<close>
  "strip_hyphens s =
     rev (dropWhile (\<lambda>c. c = CHR ''-'') (rev (dropWhile (\<lambda>c. c = CHR ''-'') s)))"

definition create_article_id :: "string \<Rightarrow> string" where
  "create_article_id article_title =
     (let paper_title =
            (if py_in ''Paper Explained: '' article_title
             then (let t = str_split ''Paper Explained: '' article_title ! 1
                   in if py_in '' - '' t then str_split '' - '' t ! 0 else t)
             else article_title);
          slug = re_sub_other (py_lower paper_title);
          slug = re_sub_runs False slug
      in strip_hyphens slug)"

definition category_slug_map :: "(string \<times> string) list" where
  "category_slug_map =
     [(''Foundation Models'', ''foundation-models''),
      (''Generative Models'', ''generative-models''),
      (''Optimization'', ''optimization''),
      (''Applications'', ''applications''),
      (''Basic Concepts'', ''basic-concepts'')]"

definition get_category_slug :: "string \<Rightarrow> string" where
  "get_category_slug display_name =
     (case map_of category_slug_map display_name of
        Some slug \<Rightarrow> slug
      | None \<Rightarrow> ''basic-concepts'')"

definition create_excerpt :: "string \<Rightarrow> string" where
  "create_excerpt background_text =
     (let sentences = str_split ''. '' background_text
      in if 2 \<le> length sentences then py_join ''. '' (take 2 sentences) @ ''.''
         else if 200 < length background_text then take 200 background_text @ ''...''
         else background_text)"

definition article_data :: "article \<Rightarrow> corpus_entry" where
  \<comment> \<open>the dict built for one article in the loop of \<open>integrate_articles\<close>\<close>
  "article_data a =
     \<lparr> e_id = create_article_id (title a),
       e_title = title a,
       e_subtitle = subtitle a,
       e_category = category a,
       e_categorySlug = get_category_slug (category a),
       e_authors = authors a,
       e_paperUrl = paper_url a,
       e_readTime = read_time a,
       e_publishDate = publish_date a,
       e_conceptExplained = concept_explained a,
       e_content = content a,
       e_conceptExplanation = concept_explanation a,
       e_summary = summary a,
       e_excerpt = create_excerpt (background (content a)) \<rparr>"

definition update_react_components :: "content_manager \<Rightarrow> filesystem \<Rightarrow> filesystem" where
  \<comment> \<open>\<open>_update_react_components\<close> and the three methods it calls, in their order\<close>
  "update_react_components cm fs =
     (let fs = fs(os_path_join (articles_dir cm) [''dataLoader.js''] \<mapsto> DataLoaderJs);
          fs = fs(os_path_join (blog_path cm) [''src'', ''components'', ''HomePage.jsx'']
                    \<mapsto> HomePageJsx);
          fs = fs(os_path_join (blog_path cm) [''src'', ''components'', ''ArticlePage.jsx'']
                    \<mapsto> ArticlePageJsx)
      in fs(os_path_join (blog_path cm) [''src'', ''components'', ''CategoryPage.jsx'']
              \<mapsto> CategoryPageJsx))"

definition articles_file :: "content_manager \<Rightarrow> string" where
  "articles_file cm = os_path_join (articles_dir cm) [''articles.json'']"

definition integrate_articles ::
    "content_manager \<Rightarrow> article list \<Rightarrow> filesystem \<Rightarrow> corpus_entry list \<times> filesystem" where
  \<comment> \<open>the file is opened with mode \<open>'w'\<close>: what it held before is replaced\<close>
  "integrate_articles cm articles fs =
     (let articles_data = map article_data articles;
          fs = fs(articles_file cm \<mapsto> CorpusFile articles_data)
      in (articles_data, update_react_components cm fs))"

text \<open>
  The names defined in the body of class \<open>ContentManager\<close>, and a call
  \<open>manager.name(articles)\<close> by name: \<open>integrate_articles\<close> is the one method that takes
  a list of articles; a name the class does not define raises AttributeError. The other
  methods take no argument or a string; calling one of them with a list is recorded as
  a TypeError.
\<close>

definition content_manager_methods :: "string list" where
  "content_manager_methods =
     [''__init__'', ''ensure_directories'', ''integrate_articles'', ''_create_article_id'',
      ''_get_category_slug'', ''_create_excerpt'', ''_update_react_components'',
      ''_update_homepage_component'', ''_update_article_page_component'',
      ''_update_category_page_component'']"

definition call_content_manager ::
    "content_manager \<Rightarrow> string \<Rightarrow> article list \<Rightarrow> filesystem \<Rightarrow> py_error + filesystem" where
  "call_content_manager cm name articles fs =
     (if name \<notin> set content_manager_methods then Inl (AttributeError name)
      else if name = ''integrate_articles'' then Inr (snd (integrate_articles cm articles fs))
      else Inl (TypeError name))"

section \<open>daily\_automation.py: integration\<close>

datatype integration_report =
    NoNewArticles
  | Integrated nat
  | IntegrationError py_error

definition daily_integrate_articles ::
    "content_manager \<Rightarrow> article list \<Rightarrow> filesystem \<Rightarrow> integration_report \<times> filesystem" where
  \<comment> \<open>\<open>DailyAutomation.integrate_articles\<close>; the report is the message it prints\<close>
  "daily_integrate_articles cm articles fs =
     (if articles = [] then (NoNewArticles, fs)
      else (case call_content_manager cm ''integrate_articles_to_blog'' articles fs of
              Inr fs' \<Rightarrow> (Integrated (length articles), fs')
            | Inl e \<Rightarrow> (IntegrationError e, fs)))"

section \<open>blog\_automation.py: integration of all generated articles\<close>

definition load_generated_articles :: "(string \<times> article option) list option \<Rightarrow> article list" where
  \<comment> \<open>\<open>listing\<close> is the directory \<open>generated_content/articles\<close>: \<open>None\<close> when it does not
      exist, else its file names in the order of \<open>os.listdir\<close>, each with the article
      \<open>json.load\<close> reads from it (\<open>None\<close> when reading it raises, which is reported and
      skipped)\<close>
  "load_generated_articles listing =
     (case listing of
        None \<Rightarrow> []
      | Some files \<Rightarrow>
          concat (map (\<lambda>(filename, loaded).
                         if py_endswith filename ''.json''
                         then (case loaded of Some a \<Rightarrow> [a] | None \<Rightarrow> [])
                         else []) files))"

definition integrate_all_content ::
    "content_manager \<Rightarrow> (string \<times> article option) list option \<Rightarrow> filesystem
       \<Rightarrow> article list \<times> filesystem" where
  \<comment> \<open>the sort key is \<open>x.get('publish_date', '')\<close>, on dicts that carry the key\<close>
  "integrate_all_content manager listing fs =
     (let articles = load_generated_articles listing
      in if articles \<noteq> []
         then (let articles = py_sort_reverse publish_date articles
               in (articles, snd (integrate_articles manager articles fs)))
         else ([], fs))"

section \<open>arxiv\_fetcher.py: search\<close>

text \<open>
  The answer of the arXiv API to one request. \<open>requests.get\<close> raises when the source
  cannot be reached; otherwise there is a status code and a body, which
  \<open>ET.fromstring\<close> parses into a feed of entries or rejects with a ParseError. Of an
  entry the model keeps what \<open>_parse_entry\<close> reads: the text of the child elements
  \<open>title\<close>, \<open>summary\<close>, \<open>published\<close> and \<open>id\<close> (\<open>None\<close> when the element is missing or has
  no text: \<open>_parse_entry\<close> raises on either), the text of the \<open>name\<close> of each author
  (\<open>None\<close> when there is no \<open>name\<close> element) and the \<open>term\<close> of each category.
\<close>

record atom_entry =
  ae_title :: "string option"
  ae_summary :: "string option"
  ae_published :: "string option"
  ae_id :: "string option"
  ae_author_names :: "string option list"
  ae_category_terms :: "string list"

datatype xml_body = XmlParseError string | XmlFeed "atom_entry list"

datatype http_result = RequestFailed string | HttpResponse nat xml_body

definition arxiv_category_mapping :: "(string \<times> string) list" where
  "arxiv_category_mapping =
     [(''cs.LG'', ''foundation-models''),
      (''cs.CL'', ''foundation-models''),
      (''cs.CV'', ''basic-concepts''),
      (''cs.AI'', ''foundation-models''),
      (''cs.NE'', ''basic-concepts''),
      (''stat.ML'', ''foundation-models''),
      (''cs.RO'', ''applications''),
      (''cs.HC'', ''applications''),
      (''q-bio'', ''applications'')]"

fun map_category :: "string list \<Rightarrow> string" where
  "map_category [] = ''basic-concepts''"
| "map_category (cat # cats) =
     (case map_of arxiv_category_mapping cat of
        Some blog_category \<Rightarrow> blog_category
      | None \<Rightarrow> map_category cats)"

definition py_replace_newline :: "string \<Rightarrow> string" where
  \<comment> \<open>\<open>s.replace('\n', ' ')\<close>\<close>
  "py_replace_newline s = map (\<lambda>c. if c = CHR 0x0A then CHR '' '' else c) s"

fun all_present :: "'a option list \<Rightarrow> 'a list option" where
  "all_present [] = Some []"
| "all_present (None # xs) = None"
| "all_present (Some x # xs) = map_option ((#) x) (all_present xs)"

definition parse_entry :: "atom_entry \<Rightarrow> paper option" where
  \<comment> \<open>\<open>_parse_entry\<close>: \<open>None\<close> when reading the entry raises\<close>
  "parse_entry entry =
     (case (ae_title entry, ae_summary entry, ae_published entry, ae_id entry,
            all_present (ae_author_names entry)) of
        (Some t, Some s, Some published, Some arxiv_url, Some names) \<Rightarrow>
          Some \<lparr> p_id = last (str_split ''/'' arxiv_url),
                 p_title = py_replace_newline (py_strip t),
                 p_authors = names,
                 p_published = take 10 published,
                 p_category = map_category (ae_category_terms entry),
                 p_summary = None,
                 p_abstract = Some (py_replace_newline (py_strip s)),
                 p_relevance_score = None \<rparr>
      | _ \<Rightarrow> None)"

definition search_query :: "string \<Rightarrow> string option \<Rightarrow> string" where
  \<comment> \<open>the \<open>search_query\<close> parameter; an empty category counts as none\<close>
  "search_query query cat_filter =
     (case cat_filter of
        None \<Rightarrow> query
      | Some cat \<Rightarrow> if cat = [] then query else ''cat:'' @ cat @ '' AND '' @ query)"

definition search_papers ::
    "(string \<Rightarrow> nat \<Rightarrow> http_result) \<Rightarrow> string \<Rightarrow> nat \<Rightarrow> string option \<Rightarrow> paper list" where
  \<comment> \<open>\<open>api q n\<close> is the answer to the request for query \<open>q\<close> and \<open>max_results = n\<close>;
      \<open>raise_for_status\<close> raises on the status codes 400 to 599\<close>
  "search_papers api query max_results cat_filter =
     (case api (search_query query cat_filter) max_results of
        RequestFailed e \<Rightarrow> []
      | HttpResponse status body \<Rightarrow>
          (if 400 \<le> status \<and> status < 600 then []
           else (case body of
                   XmlParseError e \<Rightarrow> []
                 | XmlFeed entries \<Rightarrow> List.map_filter parse_entry entries)))"

section \<open>enhanced\_arxiv\_fetcher.py: search for recent papers\<close>

text \<open>
  A result of the \<open>arxiv\<close> library, as far as \<open>search_recent_papers\<close> reads it. Times
  are naive datetimes, counted in microseconds; \<open>r_published_iso\<close> is
  \<open>result.published.isoformat()\<close>. A search is the generator \<open>search.results()\<close>: the
  results it yields, followed by the message of the exception that ends it, if one does
  (an unreachable source, a feed that cannot be read).
\<close>

record arxiv_result =
  r_entry_id :: string
  r_title :: string
  r_authors :: "string list"
  r_summary :: string
  r_published :: int
  r_published_iso :: string
  r_categories :: "string list"

type_synonym arxiv_search = "string \<Rightarrow> nat \<Rightarrow> arxiv_result list \<times> string option"

definition important_keywords :: "string list" where
  "important_keywords =
     [''transformer'', ''attention'', ''neural network'', ''deep learning'',
      ''machine learning'', ''artificial intelligence'', ''generative'',
      ''classification'', ''detection'', ''segmentation'', ''language model'',
      ''computer vision'', ''natural language processing'', ''reinforcement learning'',
      ''diffusion'', ''llm'', ''large language model'', ''multimodal'', ''vision transformer'']"

definition microseconds_per_day :: int where
  "microseconds_per_day = 86400000000"

definition calculate_relevance_score :: "int \<Rightarrow> arxiv_result \<Rightarrow> int" where
  \<comment> \<open>\<open>now\<close> is \<open>datetime.now()\<close>; \<open>timedelta.days\<close> rounds towards minus infinity\<close>
  "calculate_relevance_score now result =
     (let category_score =
            (\<Sum>cat \<leftarrow> r_categories result.
               if cat \<in> set [''cs.AI'', ''cs.LG'', ''cs.CV'', ''cs.CL''] then 10
               else if cat \<in> set [''cs.NE'', ''stat.ML'', ''cs.IR''] then 5 else 0);
          title_lower = py_lower (r_title result);
          summary_lower = py_lower (r_summary result);
          keyword_score =
            (\<Sum>keyword \<leftarrow> important_keywords.
               if py_in keyword title_lower then 3
               else if py_in keyword summary_lower then 1 else 0);
          days_old = (now - r_published result) div microseconds_per_day;
          recency = (if days_old \<le> 1 then 5 else if days_old \<le> 7 then 3
                     else if days_old \<le> 30 then 1 else 0);
          length_bonus = (if 1000 < length (r_summary result) then 2
                          else if 500 < length (r_summary result) then 1 else 0)
      in category_score + keyword_score + recency + length_bonus)"

definition enhanced_category_mapping :: "(string \<times> string) list" where
  "enhanced_category_mapping =
     [(''cs.LG'', ''foundation-models''),
      (''cs.CL'', ''foundation-models''),
      (''cs.CV'', ''basic-concepts''),
      (''cs.AI'', ''foundation-models''),
      (''cs.NE'', ''basic-concepts''),
      (''stat.ML'', ''foundation-models''),
      (''cs.RO'', ''ai-applications''),
      (''cs.HC'', ''ai-applications''),
      (''q-bio'', ''ai-applications'')]"

fun enhanced_map_category :: "string list \<Rightarrow> string" where
  \<comment> \<open>\<open>EnhancedArxivFetcher._map_category\<close>\<close>
  "enhanced_map_category [] = ''basic-concepts''"
| "enhanced_map_category (cat # cats) =
     (case map_of enhanced_category_mapping cat of
        Some blog_category \<Rightarrow> blog_category
      | None \<Rightarrow> enhanced_map_category cats)"

definition paper_data :: "int \<Rightarrow> arxiv_result \<Rightarrow> paper" where
  \<comment> \<open>the dict built for one result\<close>
  "paper_data now result =
     \<lparr> p_id = last (str_split ''/'' (r_entry_id result)),
       p_title = r_title result,
       p_authors = r_authors result,
       p_published = r_published_iso result,
       p_category = enhanced_map_category (r_categories result),
       p_summary = Some (r_summary result),
       p_abstract = None,
       p_relevance_score = Some (calculate_relevance_score now result) \<rparr>"

definition relevant_and_recent :: "int \<Rightarrow> arxiv_result \<Rightarrow> bool" where
  \<comment> \<open>the filter inside the loop over the results\<close>
  "relevant_and_recent start_date result =
     ((\<exists>cat \<in> set [''cs.AI'', ''cs.LG'', ''cs.CV'', ''cs.CL'', ''cs.NE'', ''stat.ML''].
          cat \<in> set (r_categories result))
      \<and> start_date \<le> r_published result)"

fun unique_papers :: "string set \<Rightarrow> paper list \<Rightarrow> paper list" where
  \<comment> \<open>the values of the dict \<open>unique_papers\<close>, in insertion order: the first paper of each id\<close>
  "unique_papers seen [] = []"
| "unique_papers seen (x # xs) =
     (if p_id x \<in> seen then unique_papers seen xs
      else x # unique_papers (insert (p_id x) seen) xs)"

definition search_recent_papers ::
    "int \<Rightarrow> arxiv_search \<Rightarrow> string \<Rightarrow> nat \<Rightarrow> int \<Rightarrow> paper list" where
  \<comment> \<open>An exception that ends a search is reported and the next query is tried; the papers
      appended before it stay in \<open>all_papers\<close>. The clock is read once.\<close>
  "search_recent_papers now search query max_results days_back =
     (let start_date = now - days_back * microseconds_per_day;
          ai_ml_queries =
            [''('' @ query @ '')'',
             ''(artificial intelligence OR machine learning OR deep learning OR neural network OR transformer OR attention mechanism)'',
             ''(computer vision OR natural language processing OR reinforcement learning OR generative model)''];
          all_papers =
            concat (map (\<lambda>search_query.
                           map (paper_data now)
                             (filter (relevant_and_recent start_date)
                                (fst (search search_query
                                        (max_results div length ai_ml_queries + 5)))))
                        ai_ml_queries);
          sorted_papers = py_sort_reverse relevance (unique_papers {} all_papers)
      in take max_results sorted_papers)"

section \<open>Auxiliary notions for the proofs\<close>

text \<open>
  A string is collapsed when each of its hyphens stands alone and it holds no whitespace:
  the strings that \<open>re_sub_runs\<close> leaves as they are. The flag says that the character
  before was a hyphen.
\<close>

fun collapsed :: "bool \<Rightarrow> string \<Rightarrow> bool" where
  "collapsed in_run [] = True"
| "collapsed in_run (c # cs) =
     (if c = CHR ''-'' \<or> py_isspace c then \<not> in_run \<and> c = CHR ''-'' \<and> collapsed True cs
      else collapsed False cs)"

section \<open>Example data\<close>

definition example_paper :: "string \<Rightarrow> int option \<Rightarrow> paper" where
  \<comment> \<open>a live search result with the given id and relevance score\<close>
  "example_paper i score =
     \<lparr> p_id = i, p_title = ''A Title'', p_authors = [''A. Author''],
       p_published = ''2025-01-01'', p_category = ''basic-concepts'',
       p_summary = Some ''An abstract.'', p_abstract = None, p_relevance_score = score \<rparr>"

definition example_corpus :: "stored_article list" where
  "example_corpus =
     [\<lparr> sa_paper_id = Some ''2501.00009'', sa_url = None \<rparr>,
      \<lparr> sa_paper_id = None, sa_url = Some ''https://arxiv.org/abs/2501.00008'' \<rparr>,
      \<lparr> sa_paper_id = None, sa_url = None \<rparr>]"

definition example_article :: "string \<Rightarrow> string \<Rightarrow> article" where
  \<comment> \<open>a generated article with the given title and publication date\<close>
  "example_article t d =
     \<lparr> title = t, subtitle = ''A subtitle'', category = ''Foundation Models'',
       authors = [''A. Author''], paper_url = ''https://arxiv.org/abs/2501.00001'',
       read_time = ''1 min read'', publish_date = d, concept_explained = ''A Concept'',
       content = \<lparr> background = ''Some background.'', methodology = ''A method.'',
                   results = ''Some results.'', significance = ''Why it matters.'' \<rparr>,
       concept_explanation = \<lparr> ce_title = ''Understanding A Concept'',
                               ce_content = ''An explanation.'' \<rparr>,
       summary = ''A summary.'' \<rparr>"

definition example_manager :: content_manager where
  "example_manager = new_content_manager ''/home/ubuntu/ai-paper-blog''"

definition example_listing :: "(string \<times> article option) list" where
  "example_listing =
     [(''classic_1706.03762.json'',
         Some (example_article ''Paper Explained: Attention Is All You Need - A Beginner's Guide'' ''2025-01-02'')),
      (''notes.txt'', None),
      (''daily_2501.00002.json'',
         Some (example_article ''Paper Explained: A Newer Paper - A Beginner's Guide'' ''2025-01-03'')),
      (''broken.json'', None),
      (''recent_2501.00001.json'',
         Some (example_article ''Paper Explained: Another Paper - A Beginner's Guide'' ''2025-01-02''))]"

definition older_article :: article where
  "older_article = example_article ''Paper Explained: An Older Paper - A Beginner's Guide'' ''2024-12-01''"

definition newer_article :: article where
  "newer_article = example_article ''Paper Explained: A Newer Paper - A Beginner's Guide'' ''2025-01-03''"

definition existing_corpus_fs :: filesystem where
  "existing_corpus_fs = [articles_file example_manager \<mapsto> CorpusFile [article_data older_article]]"

definition attention_article :: article where
  "attention_article =
     example_article ''Paper Explained: Attention Is All You Need - A Beginner's Guide'' ''2025-01-02''"

definition attention_article_again :: article where
  "attention_article_again =
     example_article ''Paper Explained: Attention is all you need! - A Beginner's Guide'' ''2025-01-03''"

definition classic_paper_attention :: paper where
  \<comment> \<open>the first entry of \<open>classic_papers\<close> in both fetchers\<close>
  "classic_paper_attention =
     \<lparr> p_id = ''1706.03762'',
       p_title = ''Attention Is All You Need'',
       p_authors = [''Ashish Vaswani'', ''Noam Shazeer'', ''Niki Parmar'', ''Jakob Uszkoreit'',
                    ''Llion Jones'', ''Aidan N. Gomez'', ''Lukasz Kaiser'', ''Illia Polosukhin''],
       p_published = ''2017-06-12'',
       p_category = ''foundation-models'',
       p_summary = None,
       p_abstract = Some ''The dominant sequence transduction models are based on complex recurrent or convolutional neural networks that include an encoder and a decoder. The best performing models also connect the encoder and decoder through an attention mechanism. We propose a new simple network architecture, the Transformer, based solely on attention mechanisms, dispensing with recurrence and convolutions entirely.'',
       p_relevance_score = None \<rparr>"

definition echo_service :: completion_service where
  \<comment> \<open>a service that answers every prompt with a fixed text for its template\<close>
  "echo_service q =
     (case q of
        ConceptPrompt t s \<Rightarrow> Inr ''Self-Attention Mechanism''
      | ExplanationPrompt c t s \<Rightarrow> Inr (''An explanation of '' @ c)
      | _ \<Rightarrow> Inr ''Generated text.'')"

definition silent_service :: completion_service where
  \<comment> \<open>a service whose every answer is empty\<close>
  "silent_service q = Inr ''''"

definition methodology_down_service :: completion_service where
  \<comment> \<open>the echo service, failing on the methodology prompt of the example paper\<close>
  "methodology_down_service =
     echo_service(MethodologyPrompt ''A Title'' ''An abstract.'' := Inl ''timeout'')"

definition concept_down_service :: completion_service where
  \<comment> \<open>the echo service, failing on the concept prompt of the example paper\<close>
  "concept_down_service =
     echo_service(ConceptPrompt ''A Title'' ''An abstract.'' := Inl ''timeout'')"

definition unreachable_api :: "string \<Rightarrow> nat \<Rightarrow> http_result" where
  "unreachable_api q n = RequestFailed ''Connection refused''"

definition garbled_api :: "string \<Rightarrow> nat \<Rightarrow> http_result" where
  "garbled_api q n = HttpResponse 200 (XmlParseError ''syntax error: line 1, column 0'')"

definition overloaded_api :: "string \<Rightarrow> nat \<Rightarrow> http_result" where
  "overloaded_api q n = HttpResponse 503 (XmlFeed [])"

definition unreachable_search :: arxiv_search where
  "unreachable_search q n = ([], Some ''Connection refused'')"

definition nameless_entry :: atom_entry where
  \<comment> \<open>an entry without a title element\<close>
  "nameless_entry =
     \<lparr> ae_title = None, ae_summary = Some ''An abstract.'', ae_published = Some ''2025-01-01T00:00:00Z'',
       ae_id = Some ''http://arxiv.org/abs/2501.00001v1'', ae_author_names = [Some ''A. Author''],
       ae_category_terms = [''cs.LG''] \<rparr>"

definition nameless_api :: "string \<Rightarrow> nat \<Rightarrow> http_result" where
  "nameless_api q n = HttpResponse 200 (XmlFeed [nameless_entry])"

definition sixty_words :: string where
  \<comment> \<open>a text of sixty words\<close>
  "sixty_words = concat (replicate 59 ''w '') @ ''w''"

definition wordy_service :: completion_service where
  \<comment> \<open>a service that answers every prompt with the same sixty words\<close>
  "wordy_service q = Inr sixty_words"

definition readable_entry :: atom_entry where
  "readable_entry =
     \<lparr> ae_title = Some ''A Readable Paper'', ae_summary = Some ''An abstract.'',
       ae_published = Some ''2025-01-02T00:00:00Z'',
       ae_id = Some ''http://arxiv.org/abs/2501.00002v1'', ae_author_names = [Some ''A. Author''],
       ae_category_terms = [''cs.LG''] \<rparr>"

definition mixed_api :: "string \<Rightarrow> nat \<Rightarrow> http_result" where
  \<comment> \<open>a feed with an entry that cannot be read and one that can\<close>
  "mixed_api q n = HttpResponse 200 (XmlFeed [nameless_entry, readable_entry])"

definition readable_result :: arxiv_result where
  "readable_result =
     \<lparr> r_entry_id = ''http://arxiv.org/abs/2501.00002v1'', r_title = ''A Transformer Paper'',
       r_authors = [''A. Author''], r_summary = ''An abstract.'', r_published = 0,
       r_published_iso = ''1970-01-01T00:00:00'', r_categories = [''cs.LG''] \<rparr>"

definition flaky_search :: arxiv_search where
  \<comment> \<open>every search yields one result and then ends in an exception\<close>
  "flaky_search q n = ([readable_result], Some ''Connection reset by peer'')"

definition steady_search :: arxiv_search where
  \<comment> \<open>every search yields the same result and ends normally\<close>
  "steady_search q n = ([readable_result], None)"

section \<open>Properties of the built-ins\<close>

lemma str_split_from_not_Nil: "str_split_from sep cur s \<noteq> []"
  by (induction sep cur s rule: str_split_from.induct) auto

lemma str_split_not_Nil: "str_split sep s \<noteq> []"
  by (simp add: str_split_def str_split_from_not_Nil)

text \<open>
  The two places that index the result of a split are in range: \<open>split(sep)[1]\<close> is
  read only where \<open>sep\<close> occurs in the string, and \<open>[0]\<close> and \<open>[-1]\<close> exist for every
  string.
\<close>

lemma str_split_from_length:
  "sep \<noteq> [] \<Longrightarrow> py_in sep s \<Longrightarrow> 2 \<le> length (str_split_from sep cur s)"
proof (induction sep cur s rule: str_split_from.induct)
  case (1 sep cur)
  then show ?case by simp
next
  case (2 sep cur c cs)
  show ?case
  proof (cases "prefix sep (c # cs)")
    case True
    have "str_split_from sep [] (drop (length sep) (c # cs)) \<noteq> []"
      by (rule str_split_from_not_Nil)
    then have "1 \<le> length (str_split_from sep [] (drop (length sep) (c # cs)))"
      by (simp add: Suc_le_eq)
    with True 2(3) show ?thesis by simp
  next
    case False
    with 2(4) have "py_in sep cs" by simp
    with False 2(2,3) show ?thesis by simp
  qed
qed

lemma str_split_index_1: "sep \<noteq> [] \<Longrightarrow> py_in sep s \<Longrightarrow> 1 < length (str_split sep s)"
  using str_split_from_length [of sep s "[]"] by (simp add: str_split_def)

lemma str_split_index_0: "0 < length (str_split sep s)"
  using str_split_not_Nil [of sep s] by simp

lemma set_py_sort_reverse: "set (py_sort_reverse key xs) = set xs"
  by (simp add: py_sort_reverse_def)

lemma length_py_sort_reverse: "length (py_sort_reverse key xs) = length xs"
  by (simp add: py_sort_reverse_def)

lemma py_sort_reverse_descending:
  "sorted_wrt (\<lambda>a b. key b \<le> key a) (py_sort_reverse key xs)"
proof -
  have "sorted (map key (sort_key key (rev xs)))"
    by simp
  then have "sorted_wrt (\<lambda>a b. key a \<le> key b) (sort_key key (rev xs))"
    by (simp add: sorted_wrt_map)
  then show ?thesis
    by (simp add: py_sort_reverse_def sorted_wrt_rev)
qed

lemma py_sort_reverse_stable:
  "filter (\<lambda>x. key x = k) (py_sort_reverse key xs) = filter (\<lambda>x. key x = k) xs"
proof -
  have "filter (\<lambda>x. key x = k) (py_sort_reverse key xs)
      = rev (filter (\<lambda>x. key x = k) (sort_key key (rev xs)))"
    by (simp add: py_sort_reverse_def rev_filter)
  also have "\<dots> = rev (filter (\<lambda>x. key x = k) (rev xs))"
    by (simp only: sort_key_stable)
  also have "\<dots> = filter (\<lambda>x. key x = k) xs"
    by (simp add: rev_filter)
  finally show ?thesis .
qed

section \<open>Selection of new papers\<close>

text \<open>
  C1. Whatever the stored articles (hence whatever the set of existing ids), the
  candidates and the cap, \<open>find_new_papers\<close> returns no paper whose id is an existing
  one, at most \<open>max_daily_articles\<close> papers, in non-increasing order of relevance score,
  and for each score the returned papers of that score are an initial piece of the unseen
  candidates of that score in their input order (stability). For five unseen candidates
  with scores 3, 9, 1, 9, 5 and a cap of 2 the result is the two candidates of score 9,
  the earlier one first.
\<close>

theorem find_new_papers_selection:
  fixes limit :: nat
  defines "unseen \<equiv> (\<lambda>arts x. p_id x \<notin> get_existing_paper_ids arts)"
  shows "(\<forall>x \<in> set (find_new_papers limit arts cands). unseen arts x \<and> x \<in> set cands)
       \<and> length (find_new_papers limit arts cands) \<le> limit
       \<and> sorted_wrt (\<lambda>a b. relevance b \<le> relevance a) (find_new_papers limit arts cands)
       \<and> (\<forall>k. prefix (filter (\<lambda>x. relevance x = k) (find_new_papers limit arts cands))
                     (filter (\<lambda>x. relevance x = k) (filter (unseen arts) cands)))
       \<and> (map relevance [c1, c2, c3, c4, c5] = [3, 9, 1, 9, 5]
            \<and> list_all (unseen arts) [c1, c2, c3, c4, c5]
          \<longrightarrow> find_new_papers 2 arts [c1, c2, c3, c4, c5] = [c2, c4])"
proof (intro conjI allI ballI impI)
  fix x assume "x \<in> set (find_new_papers limit arts cands)"
  then have "x \<in> set (py_sort_reverse relevance (filter (unseen arts) cands))"
    unfolding find_new_papers_def Let_def unseen_def by (rule in_set_takeD)
  then show "unseen arts x" and "x \<in> set cands"
    by (simp_all add: set_py_sort_reverse)
next
  show "length (find_new_papers limit arts cands) \<le> limit"
    by (simp add: find_new_papers_def Let_def)
next
  show "sorted_wrt (\<lambda>a b. relevance b \<le> relevance a) (find_new_papers limit arts cands)"
    unfolding find_new_papers_def Let_def
    by (rule sorted_wrt_take) (rule py_sort_reverse_descending)
next
  fix k
  have "prefix (find_new_papers limit arts cands)
          (py_sort_reverse relevance (filter (unseen arts) cands))"
    unfolding find_new_papers_def Let_def unseen_def by (rule take_is_prefix)
  then have "prefix (filter (\<lambda>x. relevance x = k) (find_new_papers limit arts cands))
          (filter (\<lambda>x. relevance x = k) (py_sort_reverse relevance (filter (unseen arts) cands)))"
    by (rule filter_mono_prefix)
  then show "prefix (filter (\<lambda>x. relevance x = k) (find_new_papers limit arts cands))
          (filter (\<lambda>x. relevance x = k) (filter (unseen arts) cands))"
    by (simp only: py_sort_reverse_stable)
next
  assume a: "map relevance [c1, c2, c3, c4, c5] = [3, 9, 1, 9, 5]
              \<and> list_all (unseen arts) [c1, c2, c3, c4, c5]"
  then have "filter (unseen arts) [c1, c2, c3, c4, c5] = [c1, c2, c3, c4, c5]"
    by simp
  then have "find_new_papers 2 arts [c1, c2, c3, c4, c5]
           = take 2 (py_sort_reverse relevance [c1, c2, c3, c4, c5])"
    by (simp add: find_new_papers_def Let_def unseen_def)
  also have "py_sort_reverse relevance [c1, c2, c3, c4, c5] = [c2, c4, c5, c1, c3]"
    using a by (simp add: py_sort_reverse_def)
  finally show "find_new_papers 2 arts [c1, c2, c3, c4, c5] = [c2, c4]"
    by simp
qed

text \<open>
  Every finite set of ids is the set of existing ids of some stored articles.
\<close>

lemma fold_add_existing_id:
  "fold add_existing_id (map (\<lambda>i. \<lparr> sa_paper_id = Some i, sa_url = None \<rparr>) ids) acc
     = set ids \<union> acc"
  by (induction ids arbitrary: acc) (auto simp: add_existing_id_def)

lemma get_existing_paper_ids_any:
  "get_existing_paper_ids (map (\<lambda>i. \<lparr> sa_paper_id = Some i, sa_url = None \<rparr>) ids) = set ids"
  by (simp add: get_existing_paper_ids_def fold_add_existing_id)

lemma example_corpus_ids:
  "get_existing_paper_ids example_corpus = {''2501.00008'', ''2501.00009''}"
  by (simp add: get_existing_paper_ids_def example_corpus_def add_existing_id_def str_split_def)

theorem find_new_papers_selection_witness:
  "map relevance [example_paper ''2501.00001'' (Some 3), example_paper ''2501.00002'' (Some 9),
                  example_paper ''2501.00003'' (Some 1), example_paper ''2501.00004'' (Some 9),
                  example_paper ''2501.00005'' (Some 5)] = [3, 9, 1, 9, 5]
   \<and> list_all (\<lambda>x. p_id x \<notin> get_existing_paper_ids example_corpus)
        [example_paper ''2501.00001'' (Some 3), example_paper ''2501.00002'' (Some 9),
         example_paper ''2501.00003'' (Some 1), example_paper ''2501.00004'' (Some 9),
         example_paper ''2501.00005'' (Some 5)]
   \<and> find_new_papers 2 example_corpus
        [example_paper ''2501.00001'' (Some 3), example_paper ''2501.00002'' (Some 9),
         example_paper ''2501.00003'' (Some 1), example_paper ''2501.00004'' (Some 9),
         example_paper ''2501.00005'' (Some 5)]
       = [example_paper ''2501.00002'' (Some 9), example_paper ''2501.00004'' (Some 9)]"
  using find_new_papers_selection [of 2 example_corpus "[]"
      "example_paper ''2501.00001'' (Some 3)" "example_paper ''2501.00002'' (Some 9)"
      "example_paper ''2501.00003'' (Some 1)" "example_paper ''2501.00004'' (Some 9)"
      "example_paper ''2501.00005'' (Some 5)"]
  by (simp add: example_corpus_ids relevance_def example_paper_def)

section \<open>The article id\<close>

lemma py_lower_char_idem: "py_lower_char (py_lower_char c) = py_lower_char c"
proof -
  have lt: "(of_char c :: nat) < 256" by simp
  show ?thesis
    using lt unfolding py_lower_char_def Let_def
    by (auto simp: )
qed

lemma py_lower_char_hyphen: "py_lower_char (CHR ''-'') = CHR ''-''"
  by (simp add: py_lower_char_def)

lemma py_isspace_space: "py_isspace (CHR '' '')"
  by (simp add: py_isspace_def)

lemma collapsed_re_sub_runs: "collapsed b (re_sub_runs b s)"
  by (induction s arbitrary: b) auto

lemma re_sub_runs_collapsed: "collapsed b s \<Longrightarrow> re_sub_runs b s = s"
  by (induction s arbitrary: b) (auto split: if_splits)

lemma collapsed_weaken: "collapsed b s \<Longrightarrow> collapsed False s"
  by (cases s) (auto split: if_splits)

lemma collapsed_append: "collapsed b (xs @ ys) \<Longrightarrow> collapsed b xs"
  by (induction xs arbitrary: b) (auto split: if_splits)

lemma collapsed_suffix: "collapsed b (xs @ ys) \<Longrightarrow> collapsed False ys"
proof (induction xs arbitrary: b)
  case Nil
  then show ?case by (simp add: collapsed_weaken)
next
  case (Cons x xs)
  then show ?case by (auto split: if_splits)
qed

lemma collapsed_dropWhile: "collapsed b s \<Longrightarrow> collapsed False (dropWhile P s)"
  using collapsed_suffix [of b "takeWhile P s" "dropWhile P s"] by simp

lemma rev_dropWhile_rev: "rev (dropWhile P (rev s)) @ rev (takeWhile P (rev s)) = s"
proof -
  have "rev (takeWhile P (rev s) @ dropWhile P (rev s)) = s" by simp
  then show ?thesis by (simp only: rev_append)
qed

lemma collapsed_strip_hyphens: "collapsed b s \<Longrightarrow> collapsed False (strip_hyphens s)"
proof -
  assume "collapsed b s"
  then have c: "collapsed False (dropWhile (\<lambda>c. c = CHR ''-'') s)"
    by (rule collapsed_dropWhile)
  let ?y = "dropWhile (\<lambda>c. c = CHR ''-'') s"
  have "collapsed False (rev (dropWhile (\<lambda>c. c = CHR ''-'') (rev ?y)) @ rev (takeWhile (\<lambda>c. c = CHR ''-'') (rev ?y)))"
    using c by (simp only: rev_dropWhile_rev)
  then show ?thesis
    unfolding strip_hyphens_def by (rule collapsed_append)
qed

lemma dropWhile_snoc_keep: "\<not> P a \<Longrightarrow> dropWhile P (xs @ [a]) = dropWhile P xs @ [a]"
  by (induction xs) auto

lemma strip_both_idem:
  "rev (dropWhile P (rev (dropWhile P (rev (dropWhile P (rev (dropWhile P s)))))))
   = rev (dropWhile P (rev (dropWhile P s)))"
proof -
  define y where "y = dropWhile P s"
  define z where "z = rev (dropWhile P (rev y))"
  have front: "dropWhile P z = z"
  proof (cases y)
    case Nil
    then show ?thesis by (simp add: z_def)
  next
    case (Cons a ys)
    then have "\<not> P a"
      using hd_dropWhile [of P s] by (simp add: y_def)
    then have "z = a # rev (dropWhile P (rev ys))"
      by (simp add: z_def Cons dropWhile_snoc_keep)
    with \<open>\<not> P a\<close> show ?thesis by simp
  qed
  have rear: "dropWhile P (rev z) = rev z"
    by (simp add: z_def)
  have "rev (dropWhile P (rev (dropWhile P z))) = z"
    by (simp only: front rear rev_rev_ident)
  then show ?thesis
    by (simp only: z_def y_def)
qed

lemma strip_hyphens_idem: "strip_hyphens (strip_hyphens s) = strip_hyphens s"
  unfolding strip_hyphens_def by (rule strip_both_idem)

lemma set_strip_hyphens: "set (strip_hyphens s) \<subseteq> set s"
  unfolding strip_hyphens_def by (auto dest!: set_dropWhileD)

lemma set_re_sub_runs:
  "c \<in> set (re_sub_runs b s) \<Longrightarrow> c = CHR ''-'' \<or> (c \<in> set s \<and> \<not> py_isspace c)"
  by (induction s arbitrary: b) (auto split: if_splits)

lemma py_in_set: "py_in sub s \<Longrightarrow> set sub \<subseteq> set s"
proof (induction s)
  case Nil
  then show ?case by simp
next
  case (Cons a s)
  then consider "prefix sub (a # s)" | "py_in sub s" by auto
  then show ?case
  proof cases
    case 1
    then show ?thesis by (rule set_mono_prefix)
  next
    case 2
    with Cons.IH show ?thesis by auto
  qed
qed

lemma create_article_id_form:
  "\<exists>u. create_article_id t = strip_hyphens (re_sub_runs False (re_sub_other (py_lower u)))"
  unfolding create_article_id_def Let_def by blast

lemma py_isspace_hyphen: "\<not> py_isspace (CHR ''-'')"
  by (simp add: py_isspace_def)

lemma create_article_id_chars:
  assumes "c \<in> set (create_article_id t)"
  shows "py_lower_char c = c" and "py_isword c \<or> c = CHR ''-''" and "\<not> py_isspace c"
proof -
  obtain u where r: "create_article_id t = strip_hyphens (re_sub_runs False (re_sub_other (py_lower u)))"
    using create_article_id_form by blast
  from assms have "c \<in> set (re_sub_runs False (re_sub_other (py_lower u)))"
    using set_strip_hyphens r by auto
  then have "c = CHR ''-'' \<or> (c \<in> set (re_sub_other (py_lower u)) \<and> \<not> py_isspace c)"
    by (rule set_re_sub_runs)
  then consider "c = CHR ''-''"
    | d where "c = py_lower_char d" "\<not> py_isspace c" "py_isword c \<or> c = CHR ''-''"
    by (auto simp: re_sub_other_def py_lower_def)
  then show "py_lower_char c = c" and "py_isword c \<or> c = CHR ''-''" and "\<not> py_isspace c"
    by (cases, simp_all add: py_lower_char_hyphen py_isspace_hyphen py_lower_char_idem)+
qed

lemma create_article_id_collapsed: "collapsed False (create_article_id t)"
  unfolding create_article_id_def Let_def
  by (rule collapsed_strip_hyphens) (rule collapsed_re_sub_runs)

lemma create_article_id_stripped: "strip_hyphens (create_article_id t) = create_article_id t"
  unfolding create_article_id_def Let_def by (rule strip_hyphens_idem)

lemma create_article_id_fixed:
  assumes lower: "\<And>c. c \<in> set r \<Longrightarrow> py_lower_char c = c"
    and word: "\<And>c. c \<in> set r \<Longrightarrow> py_isword c \<or> c = CHR ''-''"
    and nospace: "\<And>c. c \<in> set r \<Longrightarrow> \<not> py_isspace c"
    and runs: "collapsed False r"
    and ends: "strip_hyphens r = r"
  shows "create_article_id r = r"
proof -
  have "CHR '' '' \<notin> set r"
    using nospace py_isspace_space by blast
  then have no_prefix: "\<not> py_in ''Paper Explained: '' r"
    using py_in_set [of "''Paper Explained: ''" r] by auto
  have l: "py_lower r = r"
    unfolding py_lower_def by (rule map_idI) (rule lower)
  have other: "re_sub_other r = r"
    unfolding re_sub_other_def using word by (auto simp: filter_id_conv)
  have "create_article_id r = strip_hyphens (re_sub_runs False (re_sub_other (py_lower r)))"
    by (subst create_article_id_def) (simp only: no_prefix if_False Let_def)
  also have "\<dots> = strip_hyphens r"
    by (simp only: l other re_sub_runs_collapsed [OF runs])
  finally show ?thesis
    by (simp only: ends)
qed

text \<open>
  C6. The article id is a function of the title alone, and deriving an id from an id
  gives that id again: \<open>create_article_id\<close> is idempotent.
\<close>

theorem create_article_id_idempotent:
  "create_article_id (create_article_id t) = create_article_id t"
  by (rule create_article_id_fixed)
     (simp_all add: create_article_id_chars create_article_id_collapsed create_article_id_stripped)

section \<open>Integration into the corpus file\<close>

lemma last_path_join2: "b \<noteq> [] \<Longrightarrow> last (path_join2 a b) = last b"
  by simp

lemma last_os_path_join:
  "b \<noteq> [] \<Longrightarrow> last (os_path_join a (parts @ [b])) = last b"
  by (simp add: os_path_join_def del: path_join2.simps add: last_path_join2)

lemma last_articles_file: "last (articles_file cm) = CHR ''n''"
  using last_os_path_join [of "''articles.json''" "articles_dir cm" "[]"]
  by (simp add: articles_file_def del: path_join2.simps)

lemma update_react_components_other:
  assumes "last path = CHR ''n''"
  shows "update_react_components cm fs path = fs path"
proof -
  have 1: "path \<noteq> os_path_join (articles_dir cm) [''dataLoader.js'']"
    using assms last_os_path_join [of "''dataLoader.js''" "articles_dir cm" "[]"] by auto
  have 2: "path \<noteq> os_path_join (blog_path cm) [''src'', ''components'', ''HomePage.jsx'']"
    using assms last_os_path_join [of "''HomePage.jsx''" "blog_path cm" "[''src'', ''components'']"] by auto
  have 3: "path \<noteq> os_path_join (blog_path cm) [''src'', ''components'', ''ArticlePage.jsx'']"
    using assms last_os_path_join [of "''ArticlePage.jsx''" "blog_path cm" "[''src'', ''components'']"] by auto
  have 4: "path \<noteq> os_path_join (blog_path cm) [''src'', ''components'', ''CategoryPage.jsx'']"
    using assms last_os_path_join [of "''CategoryPage.jsx''" "blog_path cm" "[''src'', ''components'']"] by auto
  show ?thesis
    using 1 2 3 4 by (simp add: update_react_components_def Let_def)
qed

lemma integrate_articles_corpus:
  "snd (integrate_articles cm as fs) (articles_file cm) = Some (CorpusFile (map article_data as))"
  by (simp add: integrate_articles_def Let_def update_react_components_other last_articles_file)

lemma integrate_articles_data: "fst (integrate_articles cm as fs) = map article_data as"
  by (simp add: integrate_articles_def Let_def)

lemma mset_py_sort_reverse: "mset (py_sort_reverse key xs) = mset xs"
  by (simp add: py_sort_reverse_def)

text \<open>
  C2, as the code has it. \<open>integrate_articles\<close> does not read the corpus file: it
  replaces its content by the entries of the articles it is given, in the order given.
  \<open>integrate_all_content\<close> hands it every article loaded from the directory of generated
  articles, sorted by \<open>publish_date\<close> in descending order, so on that path the corpus
  written is a rearrangement of the loaded articles in non-increasing order of
  \<open>publishDate\<close>; when nothing was loaded nothing is written.
\<close>

theorem integrate_articles_replaces_corpus:
  "snd (integrate_articles cm as fs) (articles_file cm) = Some (CorpusFile (map article_data as))
   \<and> (load_generated_articles listing \<noteq> [] \<longrightarrow>
        (let written = fst (integrate_all_content cm listing fs)
         in snd (integrate_all_content cm listing fs) (articles_file cm)
              = Some (CorpusFile (map article_data written))
            \<and> mset written = mset (load_generated_articles listing)
            \<and> sorted_wrt (\<lambda>a b. e_publishDate b \<le> e_publishDate a) (map article_data written)))
   \<and> (load_generated_articles listing = [] \<longrightarrow> integrate_all_content cm listing fs = ([], fs))"
proof (intro conjI impI)
  show "snd (integrate_articles cm as fs) (articles_file cm) = Some (CorpusFile (map article_data as))"
    by (rule integrate_articles_corpus)
next
  assume ne: "load_generated_articles listing \<noteq> []"
  let ?sorted = "py_sort_reverse publish_date (load_generated_articles listing)"
  have w: "integrate_all_content cm listing fs = (?sorted, snd (integrate_articles cm ?sorted fs))"
    using ne by (simp add: integrate_all_content_def Let_def)
  have "sorted_wrt (\<lambda>a b. publish_date b \<le> publish_date a) ?sorted"
    by (rule py_sort_reverse_descending)
  then have "sorted_wrt (\<lambda>a b. e_publishDate b \<le> e_publishDate a) (map article_data ?sorted)"
    by (simp add: sorted_wrt_map article_data_def)
  then show "let written = fst (integrate_all_content cm listing fs)
         in snd (integrate_all_content cm listing fs) (articles_file cm)
              = Some (CorpusFile (map article_data written))
            \<and> mset written = mset (load_generated_articles listing)
            \<and> sorted_wrt (\<lambda>a b. e_publishDate b \<le> e_publishDate a) (map article_data written)"
    by (simp add: w Let_def integrate_articles_corpus mset_py_sort_reverse)
next
  assume "load_generated_articles listing = []"
  then show "integrate_all_content cm listing fs = ([], fs)"
    by (simp add: integrate_all_content_def Let_def)
qed

lemma example_loaded:
  "load_generated_articles (Some example_listing) =
     [example_article ''Paper Explained: Attention Is All You Need - A Beginner's Guide'' ''2025-01-02'',
      example_article ''Paper Explained: A Newer Paper - A Beginner's Guide'' ''2025-01-03'',
      example_article ''Paper Explained: Another Paper - A Beginner's Guide'' ''2025-01-02'']"
  by (simp add: load_generated_articles_def example_listing_def py_endswith_def)

theorem integrate_articles_replaces_corpus_witness:
  "load_generated_articles (Some example_listing) \<noteq> []
   \<and> snd (integrate_all_content example_manager (Some example_listing) Map.empty)
        (articles_file example_manager)
      = Some (CorpusFile (map article_data
          [example_article ''Paper Explained: A Newer Paper - A Beginner's Guide'' ''2025-01-03'',
           example_article ''Paper Explained: Attention Is All You Need - A Beginner's Guide'' ''2025-01-02'',
           example_article ''Paper Explained: Another Paper - A Beginner's Guide'' ''2025-01-02'']))"
proof -
  have s: "fst (integrate_all_content example_manager (Some example_listing) Map.empty)
         = [example_article ''Paper Explained: A Newer Paper - A Beginner's Guide'' ''2025-01-03'',
           example_article ''Paper Explained: Attention Is All You Need - A Beginner's Guide'' ''2025-01-02'',
           example_article ''Paper Explained: Another Paper - A Beginner's Guide'' ''2025-01-02'']"
    by (simp add: integrate_all_content_def Let_def example_loaded py_sort_reverse_def example_article_def)
  show ?thesis
    using integrate_articles_replaces_corpus [of example_manager "[]" Map.empty "Some example_listing"]
    by (simp add: Let_def s) (simp add: example_loaded)
qed

text \<open>
  The claim as stated fails: an entry that the corpus file held before is gone after
  \<open>integrate_articles\<close>, and \<open>integrate_articles\<close> itself writes the articles in the
  order given, here with the older one first.
\<close>

theorem integrate_articles_overwrites_counterexample:
  "existing_corpus_fs (articles_file example_manager) = Some (CorpusFile [article_data older_article])
   \<and> snd (integrate_articles example_manager [newer_article] existing_corpus_fs)
         (articles_file example_manager) = Some (CorpusFile [article_data newer_article])
   \<and> article_data older_article \<noteq> article_data newer_article
   \<and> snd (integrate_articles example_manager [older_article, newer_article] Map.empty)
         (articles_file example_manager)
       = Some (CorpusFile [article_data older_article, article_data newer_article])
   \<and> e_publishDate (article_data older_article) < e_publishDate (article_data newer_article)"
  by (simp add: integrate_articles_corpus existing_corpus_fs_def)
     (simp add: article_data_def older_article_def newer_article_def example_article_def)

text \<open>
  C8, as the code has it. \<open>integrate_articles\<close> handles no collision of ids: the corpus
  written holds one entry for each article given, in order, with the slug of its title as
  id, so the ids are pairwise different exactly when the slugs of the titles are.
\<close>

theorem integrate_articles_ids:
  "snd (integrate_articles cm as fs) (articles_file cm)
     = Some (CorpusFile (fst (integrate_articles cm as fs)))
   \<and> map e_id (fst (integrate_articles cm as fs)) = map (\<lambda>a. create_article_id (title a)) as
   \<and> distinct (map e_id (fst (integrate_articles cm as fs)))
       = distinct (map (\<lambda>a. create_article_id (title a)) as)"
  by (simp add: integrate_articles_corpus integrate_articles_data article_data_def comp_def)

theorem integrate_articles_ids_witness:
  "map e_id (fst (integrate_articles example_manager [older_article, newer_article] Map.empty))
     = [''an-older-paper'', ''a-newer-paper'']
   \<and> distinct (map e_id (fst (integrate_articles example_manager [older_article, newer_article] Map.empty)))"
proof -
  have "map (\<lambda>a. create_article_id (title a)) [older_article, newer_article]
        = [''an-older-paper'', ''a-newer-paper'']"
    by (simp add: older_article_def newer_article_def example_article_def) code_simp
  then show ?thesis
    using integrate_articles_ids [of example_manager "[older_article, newer_article]" Map.empty]
    by simp
qed

text \<open>
  The claim as stated fails: two articles with different titles whose slugs agree are
  both written, with the same id; neither is rejected or given another id.
\<close>

lemma attention_ids:
  "create_article_id (title attention_article) = ''attention-is-all-you-need''"
  "create_article_id (title attention_article_again) = ''attention-is-all-you-need''"
  by (simp_all add: attention_article_def attention_article_again_def example_article_def) code_simp+

theorem integrate_articles_same_id_counterexample:
  "title attention_article \<noteq> title attention_article_again
   \<and> snd (integrate_articles example_manager [attention_article, attention_article_again] Map.empty)
         (articles_file example_manager)
       = Some (CorpusFile [article_data attention_article, article_data attention_article_again])
   \<and> e_id (article_data attention_article) = ''attention-is-all-you-need''
   \<and> e_id (article_data attention_article_again) = ''attention-is-all-you-need''"
  by (simp add: integrate_articles_corpus article_data_def attention_ids)
     (simp add: attention_article_def attention_article_again_def example_article_def)

text \<open>
  C3. Class \<open>ContentManager\<close> defines no method \<open>integrate_articles_to_blog\<close>. For a
  non-empty list of articles \<open>DailyAutomation.integrate_articles\<close> therefore ends in
  the reported AttributeError, and for every list it leaves the whole file system, the
  corpus file included, as it was.
\<close>

theorem daily_integrate_articles_unchanged:
  "''integrate_articles_to_blog'' \<notin> set content_manager_methods
   \<and> (as \<noteq> [] \<longrightarrow>
        daily_integrate_articles cm as fs
          = (IntegrationError (AttributeError ''integrate_articles_to_blog''), fs))
   \<and> snd (daily_integrate_articles cm as fs) = fs"
proof -
  have m: "''integrate_articles_to_blog'' \<notin> set content_manager_methods"
    by (simp add: content_manager_methods_def)
  then have "call_content_manager cm ''integrate_articles_to_blog'' as fs
             = Inl (AttributeError ''integrate_articles_to_blog'')"
    by (simp add: call_content_manager_def)
  then show ?thesis
    using m by (simp add: daily_integrate_articles_def)
qed

theorem daily_integrate_articles_unchanged_witness:
  "[newer_article] \<noteq> []
   \<and> daily_integrate_articles example_manager [newer_article] existing_corpus_fs
       = (IntegrationError (AttributeError ''integrate_articles_to_blog''), existing_corpus_fs)
   \<and> existing_corpus_fs (articles_file example_manager)
       = Some (CorpusFile [article_data older_article])"
  using daily_integrate_articles_unchanged [of "[newer_article]" example_manager existing_corpus_fs]
  by (simp add: existing_corpus_fs_def)

text \<open>
  C7 at a title whose paper name holds the separator: the id is cut at the first
  \<open>" - "\<close> after the prefix, and without the prefix the guide suffix is kept.
\<close>

theorem create_article_id_first_separator:
  "create_article_id ''Paper Explained: Transformers - A Survey - A Beginner's Guide'' = ''transformers''
   \<and> create_article_id ''Transformers - A Beginner's Guide'' = ''transformers-a-beginners-guide''"
  by code_simp

section \<open>Generation of an article\<close>

lemma generate_article_Inr:
  assumes "p_summary p = Some s"
  shows "generate_article client today p =
     Inr \<lparr> title = ''Paper Explained: '' @ p_title p @ '' - A Beginner's Guide'',
           subtitle = py_strip (call_openai client (SubtitlePrompt (p_title p) s)),
           category = format_category (p_category p),
           authors = p_authors p,
           paper_url = ''https://arxiv.org/abs/'' @ p_id p,
           read_time =
             str_of_nat (max 1 (py_round_div (length (py_split
               (call_openai client (BackgroundPrompt (p_title p) s)
                @ call_openai client (MethodologyPrompt (p_title p) s)
                @ call_openai client (ResultsPrompt (p_title p) s)
                @ call_openai client (SignificancePrompt (p_title p) s (p_published p))
                @ call_openai client (ExplanationPrompt
                    (py_strip (call_openai client (ConceptPrompt (p_title p) s))) (p_title p) s)))) 200))
             @ '' min read'',
           publish_date = today,
           concept_explained = py_strip (call_openai client (ConceptPrompt (p_title p) s)),
           content = \<lparr> background = call_openai client (BackgroundPrompt (p_title p) s),
                       methodology = call_openai client (MethodologyPrompt (p_title p) s),
                       results = call_openai client (ResultsPrompt (p_title p) s),
                       significance = call_openai client (SignificancePrompt (p_title p) s (p_published p)) \<rparr>,
           concept_explanation =
             \<lparr> ce_title = ''Understanding '' @ py_strip (call_openai client (ConceptPrompt (p_title p) s))
                   @ '': The Heart of ''
                   @ (if py_in '':'' (p_title p) then str_split '':'' (p_title p) ! 0 else p_title p),
               ce_content = call_openai client (ExplanationPrompt
                    (py_strip (call_openai client (ConceptPrompt (p_title p) s))) (p_title p) s) \<rparr>,
           summary = py_strip (call_openai client (SummaryPrompt (p_title p) s)) \<rparr>"
  using assms
  by (simp add: generate_article_def generate_background_def generate_methodology_def
      generate_results_def generate_significance_def generate_concept_explanation_def
      generate_summary_def generate_subtitle_def bind_result_def paper_summary_def Let_def)

lemma generate_article_no_summary:
  assumes "p_summary p = None"
  shows "generate_article client today p = Inl (KeyError ''summary'')"
  using assms
  by (simp add: generate_article_def generate_background_def bind_result_def paper_summary_def)

text \<open>
  C9 at the repository's own record of the paper 1706.03762: both lists of classic papers
  store the abstract under \<open>abstract\<close>, the generator reads \<open>paper['summary']\<close> for its
  first prompt, and the KeyError ends \<open>generate_article\<close> before any article is built,
  whatever the service answers.
\<close>

theorem generate_article_classic_paper:
  "generate_article client today classic_paper_attention = Inl (KeyError ''summary'')"
  by (rule generate_article_no_summary) (simp add: classic_paper_attention_def)

text \<open>
  For a record that carries \<open>summary\<close> as well, the two fields of the claim come out as
  stated.
\<close>

lemma generate_article_attention_fields:
  assumes "p_summary p = Some s" and "p_title p = ''Attention Is All You Need''"
    and "p_category p = ''foundation-models''"
  shows "\<exists>a. generate_article client today p = Inr a \<and> category a = ''Foundation Models''
          \<and> title a = ''Paper Explained: Attention Is All You Need - A Beginner's Guide''"
  using assms
  by (simp add: generate_article_Inr format_category_def category_display_map_def)

lemma py_round_div_nearest:
  "200 * py_round_div w 200 \<le> w + 100 \<and> w \<le> 200 * py_round_div w 200 + 100
   \<and> (w mod 200 = 100 \<longrightarrow> even (py_round_div w 200))"
proof -
  define q where "q = w div 200"
  define r where "r = w mod 200"
  have w: "w = 200 * q + r" and r: "r < 200"
    by (simp_all add: q_def r_def)
  have v: "py_round_div w 200 =
      (if r < 100 then q else if 100 < r then q + 1 else if even q then q else q + 1)"
    by (simp add: py_round_div_def Let_def q_def r_def)
  have m: "w mod 200 = r"
    by (simp add: r_def)
  consider "r < 100" | "100 < r" | "r = 100" "even q" | "r = 100" "odd q"
    by linarith
  then show ?thesis
  proof cases
    case 1
    then show ?thesis unfolding v m using w r by simp
  next
    case 2
    then show ?thesis unfolding v m using w r by simp
  next
    case 3
    then show ?thesis unfolding v m using w r by simp
  next
    case 4
    then show ?thesis unfolding v m using w r by simp
  qed
qed

text \<open>
  What the code computes as read time. For a paper that carries \<open>summary\<close>, the
  article's \<open>read_time\<close> is the text \<open>"n min read"\<close>, where \<open>n\<close> is the larger of 1 and
  \<open>r\<close>, and \<open>r\<close> is the number of words of the five texts (background, methodology,
  results, significance, concept explanation) joined end to end, divided by 200 and
  rounded to the nearest integer, a tie going to the even neighbour. So \<open>n\<close> is at least
  1, and with no word at all the read time is \<open>"1 min read"\<close>.
\<close>

lemma generate_article_read_time:
  assumes "p_summary p = Some s"
  shows "\<exists>a. generate_article client today p = Inr a \<and>
     (let w = length (py_split (background (content a) @ methodology (content a)
                @ results (content a) @ significance (content a)
                @ ce_content (concept_explanation a)));
          r = py_round_div w 200;
          n = max 1 r
      in read_time a = str_of_nat n @ '' min read''
         \<and> 200 * r \<le> w + 100 \<and> w \<le> 200 * r + 100 \<and> (w mod 200 = 100 \<longrightarrow> even r)
         \<and> 1 \<le> n
         \<and> (w = 0 \<longrightarrow> read_time a = ''1 min read'')
         \<and> (background (content a) = [] \<and> methodology (content a) = []
              \<and> results (content a) = [] \<and> significance (content a) = []
              \<and> ce_content (concept_explanation a) = [] \<longrightarrow> w = 0))"
proof -
  have one: "str_of_nat (Suc 0) = ''1''"
    by (simp add: str_of_nat.simps)
  have nil: "py_split [] = []"
    by (simp add: py_split_def)
  have zero: "py_round_div 0 200 = 0"
    by (simp add: py_round_div_def)
  show ?thesis
    using py_round_div_nearest
    by (simp add: generate_article_Inr [OF assms] Let_def one zero nil)
qed

lemma generate_article_read_time_empty:
  "p_summary (example_paper ''2501.00001'' (Some 3)) = Some ''An abstract.''
   \<and> (\<exists>a. generate_article silent_service ''2025-01-02'' (example_paper ''2501.00001'' (Some 3)) = Inr a
         \<and> background (content a) = [] \<and> methodology (content a) = []
         \<and> results (content a) = [] \<and> significance (content a) = []
         \<and> ce_content (concept_explanation a) = []
         \<and> read_time a = ''1 min read'')"
proof -
  have s: "p_summary (example_paper ''2501.00001'' (Some 3)) = Some ''An abstract.''"
    by (simp add: example_paper_def)
  have c: "call_openai silent_service q = []" for q
    by (simp add: call_openai_def silent_service_def py_strip_def)
  show ?thesis
    using generate_article_read_time [OF s, of silent_service "''2025-01-02''"]
    by (auto simp: s Let_def generate_article_Inr [OF s] c)
qed

text \<open>
  The five texts are joined without a separator before the words are counted, so the last
  word of one text and the first word of the next count as one word.
\<close>

lemma word_count_joins_sections:
  "length (py_split ''a b'') = 2 \<and> length (py_split ''c d'') = 2
   \<and> length (py_split (''a b'' @ ''c d'')) = 3"
  by code_simp

lemma example_paper_fields:
  "p_summary (example_paper i sc) = Some ''An abstract.''"
  "p_title (example_paper i sc) = ''A Title''"
  "p_published (example_paper i sc) = ''2025-01-01''"
  by (simp_all add: example_paper_def)

lemma sixty_words_count: "length (py_split sixty_words) = 60"
  unfolding sixty_words_def by code_simp

lemma sixty_words_strip: "py_strip sixty_words = sixty_words"
  unfolding sixty_words_def by code_simp

lemma sixty_words_joined:
  "length (py_split (sixty_words @ sixty_words @ sixty_words @ sixty_words @ sixty_words)) = 296"
  unfolding sixty_words_def by code_simp

text \<open>
  C5 at a service that answers every prompt with sixty words. Each of the five sections
  holds 60 words, 300 in total, which at 200 words per minute is 1.5 and rounds to 2
  minutes. The code counts the words of the sections joined without a separator, where
  the last word of a section and the first word of the next run together: it counts 296
  and stores \<open>"1 min read"\<close>.
\<close>

theorem generate_article_read_time_joined:
  "map_sum id
     (\<lambda>a. (length (py_split (background (content a))),
           length (py_split (methodology (content a))),
           length (py_split (results (content a))),
           length (py_split (significance (content a))),
           length (py_split (ce_content (concept_explanation a))),
           read_time a))
     (generate_article wordy_service ''2025-01-02'' (example_paper ''2501.00001'' None))
     = Inr (60, 60, 60, 60, 60, ''1 min read'')
   \<and> str_of_nat (max 1 (py_round_div (60 + 60 + 60 + 60 + 60) 200)) @ '' min read'' = ''2 min read''"
proof -
  have c: "call_openai wordy_service q = sixty_words" for q
    by (simp add: call_openai_def wordy_service_def sixty_words_strip)
  have r1: "str_of_nat (max (Suc 0) (py_round_div 296 200)) = ''1''"
    by code_simp
  have r2: "str_of_nat (max (Suc 0) (py_round_div 300 200)) = ''2''"
    by code_simp
  show ?thesis
    by (simp add: generate_article_Inr [OF example_paper_fields(1)] c sixty_words_count
        sixty_words_joined r1 r2)
qed

lemma call_openai_Inl: "client q = Inl e \<Longrightarrow> call_openai client q = ''Error generating content: '' @ e"
  by (simp add: call_openai_def)

lemma call_openai_agree:
  "\<forall>r. r \<noteq> q \<longrightarrow> client' r = client r \<Longrightarrow> r \<noteq> q \<Longrightarrow> call_openai client' r = call_openai client r"
  by (simp add: call_openai_def)

text \<open>
  C4, as the code has it. For a paper that carries \<open>summary\<close>, \<open>generate_article\<close>
  returns an article whatever the service does. A call that fails leaves the placeholder
  \<open>"Error generating content: "\<close> followed by the error's message as its text
  (stripped of surrounding whitespace for the concept name, the summary and the subtitle).
  When the service answers one prompt \<open>q\<close> differently and every other prompt as before,
  each text generated from another prompt is unchanged, with one dependency: the concept
  name is interpolated into the prompt and the title of the concept explanation, which is
  unchanged only if \<open>q\<close> is neither the concept prompt nor the explanation prompt.
\<close>

theorem generate_article_call_failure:
  assumes "p_summary p = Some s"
  shows "\<exists>a. generate_article client today p = Inr a
     \<and> (\<forall>e. client (BackgroundPrompt (p_title p) s) = Inl e
            \<longrightarrow> background (content a) = ''Error generating content: '' @ e)
     \<and> (\<forall>e. client (MethodologyPrompt (p_title p) s) = Inl e
            \<longrightarrow> methodology (content a) = ''Error generating content: '' @ e)
     \<and> (\<forall>e. client (ResultsPrompt (p_title p) s) = Inl e
            \<longrightarrow> results (content a) = ''Error generating content: '' @ e)
     \<and> (\<forall>e. client (SignificancePrompt (p_title p) s (p_published p)) = Inl e
            \<longrightarrow> significance (content a) = ''Error generating content: '' @ e)
     \<and> (\<forall>e. client (ConceptPrompt (p_title p) s) = Inl e
            \<longrightarrow> concept_explained a = py_strip (''Error generating content: '' @ e))
     \<and> (\<forall>e. client (ExplanationPrompt (concept_explained a) (p_title p) s) = Inl e
            \<longrightarrow> ce_content (concept_explanation a) = ''Error generating content: '' @ e)
     \<and> (\<forall>e. client (SummaryPrompt (p_title p) s) = Inl e
            \<longrightarrow> summary a = py_strip (''Error generating content: '' @ e))
     \<and> (\<forall>e. client (SubtitlePrompt (p_title p) s) = Inl e
            \<longrightarrow> subtitle a = py_strip (''Error generating content: '' @ e))
     \<and> (\<forall>client' q. (\<forall>r. r \<noteq> q \<longrightarrow> client' r = client r) \<longrightarrow>
          (\<exists>a'. generate_article client' today p = Inr a'
             \<and> (q \<noteq> BackgroundPrompt (p_title p) s
                  \<longrightarrow> background (content a') = background (content a))
             \<and> (q \<noteq> MethodologyPrompt (p_title p) s
                  \<longrightarrow> methodology (content a') = methodology (content a))
             \<and> (q \<noteq> ResultsPrompt (p_title p) s
                  \<longrightarrow> results (content a') = results (content a))
             \<and> (q \<noteq> SignificancePrompt (p_title p) s (p_published p)
                  \<longrightarrow> significance (content a') = significance (content a))
             \<and> (q \<noteq> ConceptPrompt (p_title p) s
                  \<longrightarrow> concept_explained a' = concept_explained a)
             \<and> (q \<noteq> ConceptPrompt (p_title p) s
                  \<and> q \<noteq> ExplanationPrompt (concept_explained a) (p_title p) s
                  \<longrightarrow> concept_explanation a' = concept_explanation a)
             \<and> (q \<noteq> SummaryPrompt (p_title p) s \<longrightarrow> summary a' = summary a)
             \<and> (q \<noteq> SubtitlePrompt (p_title p) s \<longrightarrow> subtitle a' = subtitle a)
             \<and> title a' = title a \<and> category a' = category a \<and> authors a' = authors a
             \<and> paper_url a' = paper_url a \<and> publish_date a' = publish_date a))"
  unfolding generate_article_Inr [OF assms]
  by (auto simp: call_openai_Inl call_openai_agree)

lemma py_strip_examples:
  "py_strip ''Generated text.'' = ''Generated text.''"
  "py_strip ''Self-Attention Mechanism'' = ''Self-Attention Mechanism''"
  "py_strip ''Error generating content: timeout'' = ''Error generating content: timeout''"
  "py_strip ''An explanation of Self-Attention Mechanism'' = ''An explanation of Self-Attention Mechanism''"
  "py_strip ''An explanation of Error generating content: timeout''
     = ''An explanation of Error generating content: timeout''"
  by code_simp+

lemma title_has_no_colon: "\<not> py_in '':'' ''A Title''"
  by code_simp

theorem generate_article_call_failure_witness:
  "p_summary (example_paper ''2501.00001'' None) = Some ''An abstract.''
   \<and> methodology_down_service (MethodologyPrompt ''A Title'' ''An abstract.'') = Inl ''timeout''
   \<and> (\<exists>a a'. generate_article echo_service ''2025-01-02'' (example_paper ''2501.00001'' None) = Inr a
          \<and> generate_article methodology_down_service ''2025-01-02'' (example_paper ''2501.00001'' None) = Inr a'
          \<and> methodology (content a) = ''Generated text.''
          \<and> methodology (content a') = ''Error generating content: timeout''
          \<and> background (content a') = background (content a)
          \<and> results (content a') = results (content a)
          \<and> significance (content a') = significance (content a)
          \<and> concept_explained a' = concept_explained a
          \<and> concept_explanation a' = concept_explanation a
          \<and> summary a' = summary a
          \<and> subtitle a' = subtitle a)"
  using generate_article_call_failure
          [of "example_paper ''2501.00001'' None" "''An abstract.''" methodology_down_service
              "''2025-01-02''"]
  by (simp add: generate_article_Inr [OF example_paper_fields(1)] example_paper_fields
      call_openai_def echo_service_def methodology_down_service_def py_strip_examples
      title_has_no_colon)

text \<open>
  The claim as stated fails: when only the call that names the concept fails, the
  explanation call succeeds, and still the title and the content of the concept
  explanation differ from those of the run without the failure: the placeholder is
  explained in place of the concept.
\<close>

theorem generate_article_concept_failure_counterexample:
  "concept_down_service (ConceptPrompt ''A Title'' ''An abstract.'') = Inl ''timeout''
   \<and> concept_down_service (ExplanationPrompt ''Error generating content: timeout'' ''A Title'' ''An abstract.'')
       = Inr ''An explanation of Error generating content: timeout''
   \<and> map_sum id concept_explanation
        (generate_article echo_service ''2025-01-02'' (example_paper ''2501.00001'' None))
       = Inr \<lparr> ce_title = ''Understanding Self-Attention Mechanism: The Heart of A Title'',
               ce_content = ''An explanation of Self-Attention Mechanism'' \<rparr>
   \<and> map_sum id concept_explanation
        (generate_article concept_down_service ''2025-01-02'' (example_paper ''2501.00001'' None))
       = Inr \<lparr> ce_title = ''Understanding Error generating content: timeout: The Heart of A Title'',
               ce_content = ''An explanation of Error generating content: timeout'' \<rparr>"
  by (simp add: generate_article_Inr [OF example_paper_fields(1)] example_paper_fields
      concept_down_service_def echo_service_def call_openai_def py_strip_examples title_has_no_colon)

section \<open>Failures of the paper source\<close>

lemma set_unique_papers: "set (unique_papers seen xs) \<subseteq> set xs"
  by (induction xs arbitrary: seen) auto

lemma map_filter_empty: "List.map_filter f xs = [] \<longleftrightarrow> (\<forall>x \<in> set xs. f x = None)"
  by (simp add: map_filter_def filter_empty_conv)

lemma search_recent_papers_yielded:
  assumes "x \<in> set (search_recent_papers now search query n days_back)"
  shows "\<exists>q m r. r \<in> set (fst (search q m)) \<and> x = paper_data now r"
proof -
  from assms have "x \<in> set (unique_papers {}
      (concat (map (\<lambda>search_query.
          map (paper_data now)
            (filter (relevant_and_recent (now - days_back * microseconds_per_day))
               (fst (search search_query (n div 3 + 5)))))
        [''('' @ query @ '')'',
         ''(artificial intelligence OR machine learning OR deep learning OR neural network OR transformer OR attention mechanism)'',
         ''(computer vision OR natural language processing OR reinforcement learning OR generative model)''])))"
    unfolding search_recent_papers_def Let_def
    by (auto dest!: in_set_takeD simp: set_py_sort_reverse)
  then have "x \<in> set (concat (map (\<lambda>search_query.
          map (paper_data now)
            (filter (relevant_and_recent (now - days_back * microseconds_per_day))
               (fst (search search_query (n div 3 + 5)))))
        [''('' @ query @ '')'',
         ''(artificial intelligence OR machine learning OR deep learning OR neural network OR transformer OR attention mechanism)'',
         ''(computer vision OR natural language processing OR reinforcement learning OR generative model)'']))"
    using set_unique_papers by blast
  then show ?thesis
    by auto
qed

text \<open>
  C10, as the code has it. \<open>search_papers\<close> returns a list in every case: the empty list
  when the request fails, when the response has an error status and when its body cannot
  be parsed; from a feed that parses, the papers of the entries that can be read, in the
  order of the feed, each unreadable entry being skipped, so the list is empty exactly
  when no entry can be read. \<open>search_recent_papers\<close> returns a list in every case as
  well: it depends only on the results its searches yield, not on whether a search then
  ends in an exception; every paper it returns was built from a yielded result, and the
  list is empty when no search yields a result.
\<close>

theorem search_source_failure:
  "(api (search_query query cat_filter) n = RequestFailed e
      \<longrightarrow> search_papers api query n cat_filter = [])
   \<and> (api (search_query query cat_filter) n = HttpResponse status body \<and> 400 \<le> status \<and> status < 600
      \<longrightarrow> search_papers api query n cat_filter = [])
   \<and> (api (search_query query cat_filter) n = HttpResponse status (XmlParseError e)
      \<longrightarrow> search_papers api query n cat_filter = [])
   \<and> (api (search_query query cat_filter) n = HttpResponse status (XmlFeed entries)
       \<and> \<not> (400 \<le> status \<and> status < 600)
      \<longrightarrow> search_papers api query n cat_filter = List.map_filter parse_entry entries
          \<and> (search_papers api query n cat_filter = [] \<longleftrightarrow> (\<forall>x \<in> set entries. parse_entry x = None)))
   \<and> ((\<forall>q m. fst (search' q m) = fst (search q m))
      \<longrightarrow> search_recent_papers now search' query n days_back
            = search_recent_papers now search query n days_back)
   \<and> (\<forall>x \<in> set (search_recent_papers now search query n days_back).
         \<exists>q m r. r \<in> set (fst (search q m)) \<and> x = paper_data now r)
   \<and> ((\<forall>q m. fst (search q m) = []) \<longrightarrow> search_recent_papers now search query n days_back = [])"
proof (intro conjI impI ballI)
  show "\<exists>q m r. r \<in> set (fst (search q m)) \<and> x = paper_data now r"
    if "x \<in> set (search_recent_papers now search query n days_back)" for x
    using that by (rule search_recent_papers_yielded)
next
  assume "\<forall>q m. fst (search' q m) = fst (search q m)"
  then show "search_recent_papers now search' query n days_back
            = search_recent_papers now search query n days_back"
    by (simp add: search_recent_papers_def)
next
  assume "\<forall>q m. fst (search q m) = []"
  then show "search_recent_papers now search query n days_back = []"
    by (simp add: search_recent_papers_def py_sort_reverse_def Let_def)
qed (auto simp: search_papers_def map_filter_empty)

lemma parse_entry_examples:
  "parse_entry nameless_entry = None"
  "map_option p_id (parse_entry readable_entry) = Some ''2501.00002v1''"
  by (simp add: parse_entry_def nameless_entry_def) code_simp

lemma flaky_recent:
  "map p_id (search_recent_papers 0 flaky_search ''transformer'' 20 7) = [''2501.00002v1'']"
  by code_simp

theorem search_source_failure_witness:
  "unreachable_api (search_query ''transformer'' (Some ''cs.LG'')) 5 = RequestFailed ''Connection refused''
   \<and> search_papers unreachable_api ''transformer'' 5 (Some ''cs.LG'') = []
   \<and> overloaded_api (search_query ''transformer'' None) 5 = HttpResponse 503 (XmlFeed [])
   \<and> search_papers overloaded_api ''transformer'' 5 None = []
   \<and> garbled_api (search_query ''transformer'' None) 5
        = HttpResponse 200 (XmlParseError ''syntax error: line 1, column 0'')
   \<and> search_papers garbled_api ''transformer'' 5 None = []
   \<and> nameless_api (search_query ''transformer'' None) 5 = HttpResponse 200 (XmlFeed [nameless_entry])
   \<and> search_papers nameless_api ''transformer'' 5 None = []
   \<and> mixed_api (search_query ''transformer'' None) 5
        = HttpResponse 200 (XmlFeed [nameless_entry, readable_entry])
   \<and> search_papers mixed_api ''transformer'' 5 None
        = List.map_filter parse_entry [nameless_entry, readable_entry]
   \<and> map p_id (search_papers mixed_api ''transformer'' 5 None) = [''2501.00002v1'']
   \<and> fst (flaky_search ''(transformer)'' 11) = fst (steady_search ''(transformer)'' 11)
   \<and> search_recent_papers 0 flaky_search ''transformer'' 20 7
        = search_recent_papers 0 steady_search ''transformer'' 20 7
   \<and> map p_id (search_recent_papers 0 steady_search ''transformer'' 20 7) = [''2501.00002v1'']
   \<and> fst (unreachable_search ''(transformer)'' 11) = []
   \<and> search_recent_papers 0 unreachable_search ''transformer'' 20 7 = []"
proof -
  note t = search_source_failure [where query = "''transformer''" and now = 0 and days_back = 7]
  have 1: "search_papers unreachable_api ''transformer'' 5 (Some ''cs.LG'') = []"
    using t [where api = unreachable_api and cat_filter = "Some ''cs.LG''" and n = 5
              and e = "''Connection refused''"]
    by (simp add: unreachable_api_def)
  have 2: "search_papers overloaded_api ''transformer'' 5 None = []"
    using t [where api = overloaded_api and cat_filter = None and n = 5 and status = 503
              and body = "XmlFeed []"]
    by (simp add: overloaded_api_def)
  have 3: "search_papers garbled_api ''transformer'' 5 None = []"
    using t [where api = garbled_api and cat_filter = None and n = 5 and status = 200
              and e = "''syntax error: line 1, column 0''"]
    by (simp add: garbled_api_def)
  have 4: "search_papers nameless_api ''transformer'' 5 None = []"
    using t [where api = nameless_api and cat_filter = None and n = 5 and status = 200
              and entries = "[nameless_entry]"]
    by (simp add: nameless_api_def parse_entry_examples)
  have 5: "search_papers mixed_api ''transformer'' 5 None
        = List.map_filter parse_entry [nameless_entry, readable_entry]"
    using t [where api = mixed_api and cat_filter = None and n = 5 and status = 200
              and entries = "[nameless_entry, readable_entry]"]
    by (simp add: mixed_api_def)
  have 6: "map p_id (List.map_filter parse_entry [nameless_entry, readable_entry]) = [''2501.00002v1'']"
    using parse_entry_examples by (auto simp: map_filter_def)
  have 7: "search_recent_papers 0 flaky_search ''transformer'' 20 7
        = search_recent_papers 0 steady_search ''transformer'' 20 7"
    using t [where search' = flaky_search and search = steady_search and n = 20]
    by (simp add: flaky_search_def steady_search_def)
  have 8: "search_recent_papers 0 unreachable_search ''transformer'' 20 7 = []"
    using t [where search = unreachable_search and n = 20]
    by (simp add: unreachable_search_def)
  show ?thesis
    using 1 2 3 4 5 6 7 8 flaky_recent
    by (simp add: unreachable_api_def overloaded_api_def garbled_api_def nameless_api_def
        mixed_api_def flaky_search_def steady_search_def unreachable_search_def)
qed

text \<open>
  The claim as stated fails: a feed with one entry that cannot be read and one that can
  gives the paper of the second, and searches that each yield a result and then end in an
  exception give that result. Neither list is empty.
\<close>

theorem search_partial_failure_counterexample:
  "mixed_api (search_query ''transformer'' None) 5
      = HttpResponse 200 (XmlFeed [nameless_entry, readable_entry])
   \<and> parse_entry nameless_entry = None
   \<and> map p_id (search_papers mixed_api ''transformer'' 5 None) = [''2501.00002v1'']
   \<and> flaky_search ''(transformer)'' 11 = ([readable_result], Some ''Connection reset by peer'')
   \<and> map p_id (search_recent_papers 0 flaky_search ''transformer'' 20 7) = [''2501.00002v1'']"
proof -
  have "map p_id (search_papers mixed_api ''transformer'' 5 None) = [''2501.00002v1'']"
    using parse_entry_examples
    by (auto simp: search_papers_def mixed_api_def map_filter_def)
  then show ?thesis
    by (simp add: mixed_api_def flaky_search_def parse_entry_examples flaky_recent)
qed

end
